theory Spec2Isabelle
  imports Complex_Main "HOL-Library.AList"
begin

section \<open>Data model\<close>

text \<open>
  Coordinates are numpy \<open>float64\<close> values in the source; they are modelled as exact
  reals, so rounding, \<open>inf\<close> and \<open>nan\<close> are outside the model except where the source
  turns them into an exception (division by a zero cell size). Python integers are
  \<open>int\<close>. A point array of shape \<open>(n, 3)\<close> is a list of triples.
\<close>

type_synonym punto = "real \<times> real \<times> real"
type_synonym caja = "punto \<times> punto"


section \<open>\<open>NodoOctree\<close>\<close>

text \<open>The object built by \<open>NodoOctree.__init__\<close>: its five attributes.\<close>

datatype nodo = NodoOctree
  (puntos: "punto list")
  (limites: caja)
  (tam_minimo: real)
  (maximo_puntos: int)
  (hijos: "nodo list")

text \<open>\<open>np.max(np.subtract(limites[1], limites[0]))\<close> of \<open>_subdividir_o_hoja\<close>.\<close>

definition tam_maximo :: "caja \<Rightarrow> real" where
  "tam_maximo lims =
     (case lims of ((x0, y0, z0), (x1, y1, z1)) \<Rightarrow> max (x1 - x0) (max (y1 - y0) (z1 - z0)))"

text \<open>The boolean mask of \<open>_subdividir\<close>, for one point and one \<open>sub_limites\<close>.\<close>

definition mascara :: "caja \<Rightarrow> punto \<Rightarrow> bool" where
  "mascara sub p =
     (case sub of ((a0, b0, c0), (a1, b1, c1)) \<Rightarrow>
     (case p of (x, y, z) \<Rightarrow>
        x \<ge> a0 \<and> x < a1 \<and> y \<ge> b0 \<and> y < b1 \<and> z \<ge> c0 \<and> z < c1))"

text \<open>
  The three nested \<open>for\<close> loops of \<open>_subdividir\<close>: the \<open>sub_limites\<close> in the order in
  which the children are appended.
\<close>

definition sub_limites :: "caja \<Rightarrow> caja list" where
  "sub_limites lims =
     (case lims of ((x0, y0, z0), (x1, y1, z1)) \<Rightarrow>
      let mx = (x0 + x1) / 2; my = (y0 + y1) / 2; mz = (z0 + z1) / 2 in
      concat (map (\<lambda>dx.
        concat (map (\<lambda>dy.
          map (\<lambda>dz. ((fst dx, fst dy, fst dz), (snd dx, snd dy, snd dz)))
            [(z0, mz), (mz, z1)])
          [(y0, my), (my, y1)]))
        [(x0, mx), (mx, x1)]))"

text \<open>
  \<open>NodoOctree(puntos, limites, tam_minimo, maximo_puntos)\<close>. The constructor recurses
  without a bound of its own; the first argument is the number of nested constructor
  calls the interpreter allows, and \<open>None\<close> is the \<open>RecursionError\<close> raised when
  they are used up (an exception in a child aborts the whole construction).
\<close>

fun construir :: "nat \<Rightarrow> punto list \<Rightarrow> caja \<Rightarrow> real \<Rightarrow> int \<Rightarrow> nodo option" where
  "construir 0 pts lims tmin maxp = None"
| "construir (Suc k) pts lims tmin maxp =
     (if int (length pts) > maxp \<and> tam_maximo lims > tmin
      then map_option (NodoOctree pts lims tmin maxp)
             (those (map (\<lambda>sub. construir k (filter (mascara sub) pts) sub tmin maxp)
                      (sub_limites lims)))
      else Some (NodoOctree pts lims tmin maxp []))"

text \<open>The raw dictionary of \<open>recursivo\<close> inside \<open>recopilar_estadisticas\<close>.\<close>

record estad =
  nodos :: int
  hojas :: int
  internos :: int
  hojas_ocupadas :: int
  hojas_vacias :: int
  suma_puntos :: int

text \<open>\<open>for k in estad: estad[k] += sub[k]\<close>.\<close>

definition acumular :: "estad \<Rightarrow> estad \<Rightarrow> estad" where
  "acumular e sub =
     \<lparr>nodos = nodos e + nodos sub, hojas = hojas e + hojas sub,
      internos = internos e + internos sub,
      hojas_ocupadas = hojas_ocupadas e + hojas_ocupadas sub,
      hojas_vacias = hojas_vacias e + hojas_vacias sub,
      suma_puntos = suma_puntos e + suma_puntos sub\<rparr>"

fun recursivo :: "nodo \<Rightarrow> estad" where
  "recursivo (NodoOctree pts lims tmin maxp hs) =
     (if hs = [] then
        (let cnt = int (length pts) in
         if cnt > 0
         then \<lparr>nodos = 1, hojas = 1, internos = 0, hojas_ocupadas = 1,
               hojas_vacias = 0, suma_puntos = cnt\<rparr>
         else \<lparr>nodos = 1, hojas = 1, internos = 0, hojas_ocupadas = 0,
               hojas_vacias = 1, suma_puntos = 0\<rparr>)
      else fold (\<lambda>h e. acumular e (recursivo h)) hs
             \<lparr>nodos = 1, hojas = 0, internos = 1, hojas_ocupadas = 0,
              hojas_vacias = 0, suma_puntos = 0\<rparr>)"

text \<open>The dictionary returned by \<open>recopilar_estadisticas\<close>.\<close>

record estad_octree =
  total_nodos :: int
  o_hojas :: int
  o_internos :: int
  o_hojas_ocupadas :: int
  o_hojas_vacias :: int
  promedio_puntos :: real

definition recopilar_estadisticas :: "nodo \<Rightarrow> estad_octree" where
  "recopilar_estadisticas n =
     (let raw = recursivo n;
          prom_hojas = (if hojas_ocupadas raw \<noteq> 0
                        then real_of_int (suma_puntos raw) / real_of_int (hojas_ocupadas raw)
                        else 0)
      in \<lparr>total_nodos = nodos raw, o_hojas = hojas raw, o_internos = internos raw,
          o_hojas_ocupadas = hojas_ocupadas raw, o_hojas_vacias = hojas_vacias raw,
          promedio_puntos = prom_hojas\<rparr>)"

fun obtener_nodos_hoja :: "nodo \<Rightarrow> nodo list" where
  "obtener_nodos_hoja (NodoOctree pts lims tmin maxp hs) =
     (if hs = [] then [NodoOctree pts lims tmin maxp hs]
      else concat (map obtener_nodos_hoja hs))"

text \<open>\<open>[n for n in hojas if len(n.puntos) > 0]\<close> of \<open>visualizar_archivo\<close>.\<close>

definition hojas_ocupadas_de :: "nodo \<Rightarrow> nodo list" where
  "hojas_ocupadas_de n = filter (\<lambda>h. length (puntos h) > 0) (obtener_nodos_hoja n)"

section \<open>Leaf selection in \<open>visualizar_archivo\<close>\<close>

text \<open>Python's \<open>int()\<close> of a float: truncation towards zero.\<close>

definition entero :: "real \<Rightarrow> int" where
  "entero r = (if r \<ge> 0 then \<lfloor>r\<rfloor> else \<lceil>r\<rceil>)"

text \<open>
  Python's \<open>xs[j]\<close> on a list: a negative index counts from the end, and \<open>None\<close> is the
  \<open>IndexError\<close> of an index out of range.
\<close>

definition indice :: "'a list \<Rightarrow> int \<Rightarrow> 'a option" where
  "indice xs j =
     (let n = int (length xs) in
      if 0 \<le> j \<and> j < n then Some (xs ! nat j)
      else if - n \<le> j \<and> j < 0 then Some (xs ! nat (n + j))
      else None)"

text \<open>
  The \<open>if max_hojas > 0 and T > max_hojas: ... else: ...\<close> statement that computes
  \<open>seleccionadas\<close> from the list \<open>hojas_ocupadas\<close> (here \<open>ocupadas_h\<close>) and \<open>max_hojas\<close>; \<open>paso = T / max_hojas\<close> is
  Python's true division.
\<close>

definition seleccionadas :: "'a list \<Rightarrow> int \<Rightarrow> 'a list option" where
  "seleccionadas ocupadas_h max_hojas =
     (let T = length ocupadas_h in
      if max_hojas > 0 \<and> int T > max_hojas then
        (let paso = real T / real_of_int max_hojas in
         those (map (\<lambda>i. indice ocupadas_h (entero (real i * paso)))
                  [0 ..< nat max_hojas]))
      else Some ocupadas_h)"

section \<open>\<open>RejillaOcupacion\<close>\<close>












section \<open>Notions used to state the properties\<close>

text \<open>All nodes of a tree, the root first, and the number of levels below the root.\<close>

fun todos_nodos :: "nodo \<Rightarrow> nodo list" where
  "todos_nodos (NodoOctree pts lims tmin maxp hs) =
     NodoOctree pts lims tmin maxp hs # concat (map todos_nodos hs)"



section \<open>Construction of the octree\<close>

lemma those_eq_Some: "those xs = Some ys \<longleftrightarrow> xs = map Some ys"
  by (induction xs arbitrary: ys) (auto split: option.splits)


lemma length_sub_limites: "length (sub_limites lims) = 8"
  by (simp add: sub_limites_def Let_def split: prod.splits)

lemma construir_Some:
  assumes "construir k pts lims tmin maxp = Some n"
  shows "\<exists>j. k = Suc j \<and>
     (if int (length pts) > maxp \<and> tam_maximo lims > tmin
      then \<exists>hs. n = NodoOctree pts lims tmin maxp hs \<and>
             map (\<lambda>sub. construir j (filter (mascara sub) pts) sub tmin maxp) (sub_limites lims)
               = map Some hs
      else n = NodoOctree pts lims tmin maxp [])"
proof (cases k)
  case 0
  with assms show ?thesis by simp
next
  case (Suc j)
  with assms show ?thesis
    by (auto simp: those_eq_Some split: if_splits)
qed

lemma construir_campos:
  assumes "construir k pts lims tmin maxp = Some n"
  shows "puntos n = pts \<and> limites n = lims \<and> tam_minimo n = tmin \<and> maximo_puntos n = maxp"
  using construir_Some[OF assms] by (auto split: if_splits)

lemma construir_hijos:
  assumes "construir k pts lims tmin maxp = Some n"
  shows "if int (length pts) > maxp \<and> tam_maximo lims > tmin
         then length (hijos n) = 8 \<and> map limites (hijos n) = sub_limites lims \<and>
              map puntos (hijos n) = map (\<lambda>sub. filter (mascara sub) pts) (sub_limites lims)
         else hijos n = []"
proof -
  from construir_Some[OF assms] obtain j where j: "k = Suc j"
    and c: "if int (length pts) > maxp \<and> tam_maximo lims > tmin
      then \<exists>hs. n = NodoOctree pts lims tmin maxp hs \<and>
             map (\<lambda>sub. construir j (filter (mascara sub) pts) sub tmin maxp) (sub_limites lims)
               = map Some hs
      else n = NodoOctree pts lims tmin maxp []" by blast
  show ?thesis
  proof (cases "int (length pts) > maxp \<and> tam_maximo lims > tmin")
    case False
    with c show ?thesis by simp
  next
    case True
    with c obtain hs where n: "n = NodoOctree pts lims tmin maxp hs"
      and m: "map (\<lambda>sub. construir j (filter (mascara sub) pts) sub tmin maxp) (sub_limites lims)
               = map Some hs" by auto
    from arg_cong[OF m, of length] have len: "length hs = length (sub_limites lims)" by simp
    have each: "construir j (filter (mascara (sub_limites lims ! i)) pts) (sub_limites lims ! i) tmin maxp
                  = Some (hs ! i)" if "i < length hs" for i
    proof -
      from m have "map (\<lambda>sub. construir j (filter (mascara sub) pts) sub tmin maxp) (sub_limites lims) ! i
               = map Some hs ! i" by simp
      with that len show ?thesis by simp
    qed
    have l: "map limites hs = sub_limites lims"
    proof (rule nth_equalityI)
      show "length (map limites hs) = length (sub_limites lims)" using len by simp
    next
      fix i assume "i < length (map limites hs)"
      then have i: "i < length hs" by simp
      from construir_campos[OF each[OF i]] i show "map limites hs ! i = sub_limites lims ! i"
        by simp
    qed
    have p: "map puntos hs = map (\<lambda>sub. filter (mascara sub) pts) (sub_limites lims)"
    proof (rule nth_equalityI)
      show "length (map puntos hs) = length (map (\<lambda>sub. filter (mascara sub) pts) (sub_limites lims))"
        using len by simp
    next
      fix i assume "i < length (map puntos hs)"
      then have i: "i < length hs" by simp
      from construir_campos[OF each[OF i]] i len
      show "map puntos hs ! i = map (\<lambda>sub. filter (mascara sub) pts) (sub_limites lims) ! i"
        by simp
    qed
    from True n len l p show ?thesis by (simp add: length_sub_limites)
  qed
qed

lemma todos_nodos_construidos:
  "construir k pts lims tmin maxp = Some t \<Longrightarrow> n \<in> set (todos_nodos t) \<Longrightarrow>
   \<exists>j. construir j (puntos n) (limites n) tmin maxp = Some n"
proof (induction k arbitrary: pts lims t)
  case 0
  then show ?case by simp
next
  case (Suc k)
  show ?case
  proof (cases "int (length pts) > maxp \<and> tam_maximo lims > tmin")
    case False
    with Suc.prems have "t = NodoOctree pts lims tmin maxp []" by simp
    with Suc.prems show ?thesis by (intro exI[of _ "Suc k"]) auto
  next
    case True
    with Suc.prems(1) obtain hs where t: "t = NodoOctree pts lims tmin maxp hs"
      and m: "map (\<lambda>sub. construir k (filter (mascara sub) pts) sub tmin maxp) (sub_limites lims)
               = map Some hs"
      by (auto simp: those_eq_Some)
    show ?thesis
    proof (cases "n = t")
      case True
      with Suc.prems(1) t show ?thesis by (intro exI[of _ "Suc k"]) auto
    next
      case False
      with Suc.prems(2) t obtain h where h: "h \<in> set hs" "n \<in> set (todos_nodos h)" by auto
      then obtain i where i: "i < length hs" "hs ! i = h" by (meson in_set_conv_nth)
      from arg_cong[OF m, of length] have len: "length hs = length (sub_limites lims)" by simp
      from m have "map (\<lambda>sub. construir k (filter (mascara sub) pts) sub tmin maxp) (sub_limites lims) ! i
               = map Some hs ! i" by simp
      with i len have "construir k (filter (mascara (sub_limites lims ! i)) pts) (sub_limites lims ! i) tmin maxp
                  = Some h" by simp
      from Suc.IH[OF this h(2)] show ?thesis .
    qed
  qed
qed

lemma sub_limites_lista:
  "sub_limites ((x0, y0, z0), (x1, y1, z1)) =
     [((x0, y0, z0), ((x0 + x1) / 2, (y0 + y1) / 2, (z0 + z1) / 2)),
      ((x0, y0, (z0 + z1) / 2), ((x0 + x1) / 2, (y0 + y1) / 2, z1)),
      ((x0, (y0 + y1) / 2, z0), ((x0 + x1) / 2, y1, (z0 + z1) / 2)),
      ((x0, (y0 + y1) / 2, (z0 + z1) / 2), ((x0 + x1) / 2, y1, z1)),
      (((x0 + x1) / 2, y0, z0), (x1, (y0 + y1) / 2, (z0 + z1) / 2)),
      (((x0 + x1) / 2, y0, (z0 + z1) / 2), (x1, (y0 + y1) / 2, z1)),
      (((x0 + x1) / 2, (y0 + y1) / 2, z0), (x1, y1, (z0 + z1) / 2)),
      (((x0 + x1) / 2, (y0 + y1) / 2, (z0 + z1) / 2), (x1, y1, z1))]"
  by (simp add: sub_limites_def Let_def)






lemma construir_2: "construir 2 = construir (Suc (Suc 0))"
  by (simp add: eval_nat_numeral)

lemma construir_ejemplo: "construir 2 [(0, 0, 0), (1, 1, 1)] ((0, 0, 0), (1, 1, 1)) (1/2) 1
   = Some (NodoOctree [(0, 0, 0), (1, 1, 1)] ((0, 0, 0), (1, 1, 1)) (1/2) 1
       [NodoOctree [(0, 0, 0)] ((0, 0, 0), 1 / 2, 1 / 2, 1 / 2) (1 / 2) 1 [],
        NodoOctree [] ((0, 0, 1 / 2), 1 / 2, 1 / 2, 1) (1 / 2) 1 [],
        NodoOctree [] ((0, 1 / 2, 0), 1 / 2, 1, 1 / 2) (1 / 2) 1 [],
        NodoOctree [] ((0, 1 / 2, 1 / 2), 1 / 2, 1, 1) (1 / 2) 1 [],
        NodoOctree [] ((1 / 2, 0, 0), 1, 1 / 2, 1 / 2) (1 / 2) 1 [],
        NodoOctree [] ((1 / 2, 0, 1 / 2), 1, 1 / 2, 1) (1 / 2) 1 [],
        NodoOctree [] ((1 / 2, 1 / 2, 0), 1, 1, 1 / 2) (1 / 2) 1 [],
        NodoOctree [] ((1 / 2, 1 / 2, 1 / 2), 1, 1, 1) (1 / 2) 1 []])"
  by (simp add: construir_2 sub_limites_lista mascara_def tam_maximo_def)

section \<open>Claims about the subdivision of a node\<close>

text \<open>
  C5. Every node \<open>n\<close> of a constructed octree has eight children if and only if
  \<open>len(puntos) > maximo_puntos\<close> and the largest extent of its bounds exceeds
  \<open>tam_minimo\<close>; otherwise it has no children. When it subdivides, the bounds of its
  children are the eight octants obtained by splitting every axis at its midpoint, in
  the order x outermost, then y, then z innermost, the lower half before the upper.
\<close>

theorem nodo_subdivide_sii:
  assumes "construir k pts lims tmin maxp = Some t" and "n \<in> set (todos_nodos t)"
  shows "(length (hijos n) = 8 \<longleftrightarrow>
            int (length (puntos n)) > maximo_puntos n \<and> tam_maximo (limites n) > tam_minimo n) \<and>
         (\<not> (int (length (puntos n)) > maximo_puntos n \<and> tam_maximo (limites n) > tam_minimo n)
            \<longrightarrow> hijos n = []) \<and>
         (int (length (puntos n)) > maximo_puntos n \<and> tam_maximo (limites n) > tam_minimo n \<longrightarrow>
            (\<forall>x0 y0 z0 x1 y1 z1. limites n = ((x0, y0, z0), (x1, y1, z1)) \<longrightarrow>
               map limites (hijos n) =
                 [((x0, y0, z0), ((x0 + x1) / 2, (y0 + y1) / 2, (z0 + z1) / 2)),
                  ((x0, y0, (z0 + z1) / 2), ((x0 + x1) / 2, (y0 + y1) / 2, z1)),
                  ((x0, (y0 + y1) / 2, z0), ((x0 + x1) / 2, y1, (z0 + z1) / 2)),
                  ((x0, (y0 + y1) / 2, (z0 + z1) / 2), ((x0 + x1) / 2, y1, z1)),
                  (((x0 + x1) / 2, y0, z0), (x1, (y0 + y1) / 2, (z0 + z1) / 2)),
                  (((x0 + x1) / 2, y0, (z0 + z1) / 2), (x1, (y0 + y1) / 2, z1)),
                  (((x0 + x1) / 2, (y0 + y1) / 2, z0), (x1, y1, (z0 + z1) / 2)),
                  (((x0 + x1) / 2, (y0 + y1) / 2, (z0 + z1) / 2), (x1, y1, z1))]))"
proof -
  from todos_nodos_construidos[OF assms] obtain j
    where j: "construir j (puntos n) (limites n) tmin maxp = Some n" by blast
  from construir_campos[OF j] have f: "tam_minimo n = tmin" "maximo_puntos n = maxp" by simp_all
  note h = construir_hijos[OF j]
  show ?thesis
  proof (cases "int (length (puntos n)) > maxp \<and> tam_maximo (limites n) > tmin")
    case False
    with h f show ?thesis by auto
  next
    case True
    with h have "length (hijos n) = 8" "map limites (hijos n) = sub_limites (limites n)"
      by simp_all
    with True f show ?thesis by (auto simp: sub_limites_lista)
  qed
qed

theorem nodo_subdivide_sii_witness:
  "construir 2 [(0, 0, 0), (1, 1, 1)] ((0, 0, 0), (1, 1, 1)) (1/2) 1 \<noteq> None \<and>
   length (hijos (the (construir 2 [(0, 0, 0), (1, 1, 1)] ((0, 0, 0), (1, 1, 1)) (1/2) 1))) = 8 \<and>
   map limites (hijos (the (construir 2 [(0, 0, 0), (1, 1, 1)] ((0, 0, 0), (1, 1, 1)) (1/2) 1))) =
     [((0, 0, 0), (1/2, 1/2, 1/2)), ((0, 0, 1/2), (1/2, 1/2, 1)),
      ((0, 1/2, 0), (1/2, 1, 1/2)), ((0, 1/2, 1/2), (1/2, 1, 1)),
      ((1/2, 0, 0), (1, 1/2, 1/2)), ((1/2, 0, 1/2), (1, 1/2, 1)),
      ((1/2, 1/2, 0), (1, 1, 1/2)), ((1/2, 1/2, 1/2), (1, 1, 1))] \<and>
   hijos (hd (hijos (the (construir 2 [(0, 0, 0), (1, 1, 1)] ((0, 0, 0), (1, 1, 1)) (1/2) 1)))) = []"
proof -
  let ?P = "[(0, 0, 0), (1, 1, 1)] :: punto list"
  let ?L = "((0, 0, 0), (1, 1, 1)) :: caja"
  obtain t where c: "construir 2 ?P ?L (1/2) 1 = Some t" using construir_ejemplo by blast
  with construir_ejemplo have t: "t = NodoOctree ?P ?L (1/2) 1 (hijos t)"
    and h: "hd (hijos t) = NodoOctree [(0, 0, 0)] ((0, 0, 0), 1 / 2, 1 / 2, 1 / 2) (1 / 2) 1 []"
    by auto
  have r: "t \<in> set (todos_nodos t)" by (cases t) simp
  have l: "limites t = ((0, 0, 0), (1, 1, 1))" using t by (metis nodo.sel(2))
  have s: "int (length (puntos t)) > maximo_puntos t \<and> tam_maximo (limites t) > tam_minimo t"
    using c construir_ejemplo by (auto simp: tam_maximo_def)
  from nodo_subdivide_sii[OF c r] s l
  have a: "length (hijos t) = 8" and b: "map limites (hijos t) =
     [((0, 0, 0), ((0 + 1) / 2, (0 + 1) / 2, (0 + 1) / 2)),
      ((0, 0, (0 + 1) / 2), ((0 + 1) / 2, (0 + 1) / 2, 1)),
      ((0, (0 + 1) / 2, 0), ((0 + 1) / 2, 1, (0 + 1) / 2)),
      ((0, (0 + 1) / 2, (0 + 1) / 2), ((0 + 1) / 2, 1, 1)),
      (((0 + 1) / 2, 0, 0), (1, (0 + 1) / 2, (0 + 1) / 2)),
      (((0 + 1) / 2, 0, (0 + 1) / 2), (1, (0 + 1) / 2, 1)),
      (((0 + 1) / 2, (0 + 1) / 2, 0), (1, 1, (0 + 1) / 2)),
      (((0 + 1) / 2, (0 + 1) / 2, (0 + 1) / 2), (1, 1, 1))]"
    by blast+
  have hn: "hd (hijos t) \<in> set (todos_nodos t)"
    using c construir_ejemplo by auto
  from nodo_subdivide_sii[OF c hn] h have d: "hijos (hd (hijos t)) = []" by simp
  from a b c d show ?thesis by simp
qed



section \<open>Statistics of the octree\<close>

lemma fold_acumular:
  "fold (\<lambda>h e. acumular e (recursivo h)) hs e0 =
     \<lparr>nodos = nodos e0 + sum_list (map (\<lambda>h. nodos (recursivo h)) hs),
      hojas = hojas e0 + sum_list (map (\<lambda>h. hojas (recursivo h)) hs),
      internos = internos e0 + sum_list (map (\<lambda>h. internos (recursivo h)) hs),
      hojas_ocupadas = hojas_ocupadas e0 + sum_list (map (\<lambda>h. hojas_ocupadas (recursivo h)) hs),
      hojas_vacias = hojas_vacias e0 + sum_list (map (\<lambda>h. hojas_vacias (recursivo h)) hs),
      suma_puntos = suma_puntos e0 + sum_list (map (\<lambda>h. suma_puntos (recursivo h)) hs)\<rparr>"
  by (induction hs arbitrary: e0) (simp_all add: acumular_def)

lemma suma_longitudes:
  "(\<And>h. h \<in> set hs \<Longrightarrow> F h = int (length (G h))) \<Longrightarrow>
   sum_list (map F hs) = int (length (concat (map G hs)))"
  by (induction hs) simp_all

lemma suma_sumas:
  "(\<And>h. h \<in> set hs \<Longrightarrow> F h = int (sum_list (map w (G h)))) \<Longrightarrow>
   sum_list (map F hs) = int (sum_list (map w (concat (map G hs))))"
  by (induction hs) simp_all

lemma suma_puntual:
  "(\<And>h. h \<in> set hs \<Longrightarrow> F h = A h + B h) \<Longrightarrow>
   sum_list (map F hs) = sum_list (map A hs) + (sum_list (map B hs) :: int)"
  by (induction hs) simp_all

lemma hojas_ocupadas_de_nodo:
  "hojas_ocupadas_de (NodoOctree pts lims tmin maxp hs) =
     (if hs = [] then (if length pts > 0 then [NodoOctree pts lims tmin maxp hs] else [])
      else concat (map hojas_ocupadas_de hs))"
  unfolding hojas_ocupadas_de_def[abs_def] by (simp add: filter_concat comp_def)

lemma recursivo_nodos: "nodos (recursivo t) = int (length (todos_nodos t))"
proof (induction t rule: recursivo.induct)
  case (1 pts lims tmin maxp hs)
  show ?case
  proof (cases "hs = []")
    case True
    then show ?thesis by (simp add: Let_def)
  next
    case False
    with 1 have "sum_list (map (\<lambda>h. nodos (recursivo h)) hs) = int (length (concat (map todos_nodos hs)))"
      by (intro suma_longitudes) simp
    with False show ?thesis by (simp add: fold_acumular)
  qed
qed

lemma recursivo_hojas: "hojas (recursivo t) = int (length (obtener_nodos_hoja t))"
proof (induction t rule: recursivo.induct)
  case (1 pts lims tmin maxp hs)
  show ?case
  proof (cases "hs = []")
    case True
    then show ?thesis by (simp add: Let_def)
  next
    case False
    with 1 have "sum_list (map (\<lambda>h. hojas (recursivo h)) hs) = int (length (concat (map obtener_nodos_hoja hs)))"
      by (intro suma_longitudes) simp
    with False show ?thesis by (simp add: fold_acumular)
  qed
qed

lemma recursivo_internos:
  "internos (recursivo t) = int (length (filter (\<lambda>n. hijos n \<noteq> []) (todos_nodos t)))"
proof (induction t rule: recursivo.induct)
  case (1 pts lims tmin maxp hs)
  show ?case
  proof (cases "hs = []")
    case True
    then show ?thesis by (simp add: Let_def)
  next
    case False
    with 1 have "sum_list (map (\<lambda>h. internos (recursivo h)) hs) =
        int (length (concat (map (\<lambda>h. filter (\<lambda>n. hijos n \<noteq> []) (todos_nodos h)) hs)))"
      by (intro suma_longitudes) simp
    with False show ?thesis by (simp add: fold_acumular filter_concat comp_def)
  qed
qed

lemma recursivo_hojas_ocupadas:
  "hojas_ocupadas (recursivo t) = int (length (hojas_ocupadas_de t))"
proof (induction t rule: recursivo.induct)
  case (1 pts lims tmin maxp hs)
  show ?case
  proof (cases "hs = []")
    case True
    then show ?thesis by (simp add: Let_def hojas_ocupadas_de_nodo)
  next
    case False
    with 1 have "sum_list (map (\<lambda>h. hojas_ocupadas (recursivo h)) hs) =
        int (length (concat (map hojas_ocupadas_de hs)))"
      by (intro suma_longitudes) simp
    with False show ?thesis
      by (simp add: fold_acumular hojas_ocupadas_de_nodo)
  qed
qed

lemma recursivo_suma_puntos:
  "suma_puntos (recursivo t) = int (sum_list (map (\<lambda>h. length (puntos h)) (hojas_ocupadas_de t)))"
proof (induction t rule: recursivo.induct)
  case (1 pts lims tmin maxp hs)
  show ?case
  proof (cases "hs = []")
    case True
    then show ?thesis by (simp add: Let_def hojas_ocupadas_de_nodo)
  next
    case False
    with 1 have "sum_list (map (\<lambda>h. suma_puntos (recursivo h)) hs) =
        int (sum_list (map (\<lambda>h. length (puntos h)) (concat (map hojas_ocupadas_de hs))))"
      by (intro suma_sumas) simp
    with False show ?thesis
      by (simp add: fold_acumular hojas_ocupadas_de_nodo)
  qed
qed

lemma recursivo_balance:
  "nodos (recursivo t) = hojas (recursivo t) + internos (recursivo t) \<and>
   hojas_ocupadas (recursivo t) + hojas_vacias (recursivo t) = hojas (recursivo t)"
proof (induction t rule: recursivo.induct)
  case (1 pts lims tmin maxp hs)
  show ?case
  proof (cases "hs = []")
    case True
    then show ?thesis by (simp add: Let_def)
  next
    case False
    with 1 have a: "sum_list (map (\<lambda>h. nodos (recursivo h)) hs) =
        sum_list (map (\<lambda>h. hojas (recursivo h)) hs) + sum_list (map (\<lambda>h. internos (recursivo h)) hs)"
      by (intro suma_puntual) simp
    from False 1 have b: "sum_list (map (\<lambda>h. hojas (recursivo h)) hs) =
        sum_list (map (\<lambda>h. hojas_ocupadas (recursivo h)) hs) + sum_list (map (\<lambda>h. hojas_vacias (recursivo h)) hs)"
      by (intro suma_puntual) simp
    from False a b show ?thesis by (simp add: fold_acumular)
  qed
qed

lemma hojas_sin_hijos: "obtener_nodos_hoja t = filter (\<lambda>n. hijos n = []) (todos_nodos t)"
proof (induction t rule: obtener_nodos_hoja.induct)
  case (1 pts lims tmin maxp hs)
  show ?case
  proof (cases "hs = []")
    case True
    then show ?thesis by simp
  next
    case False
    have e: "concat (map obtener_nodos_hoja hs) =
             concat (map (\<lambda>h. filter (\<lambda>n. hijos n = []) (todos_nodos h)) hs)"
      by (rule arg_cong[where f = concat]) (use False 1 in simp)
    from False e show ?thesis by (simp add: filter_concat comp_def)
  qed
qed

lemma hojas_u_ocho:
  assumes "construir k pts lims tmin maxp = Some t" and "n \<in> set (todos_nodos t)"
  shows "hijos n = [] \<or> length (hijos n) = 8"
proof -
  from todos_nodos_construidos[OF assms] obtain j
    where j: "construir j (puntos n) (limites n) tmin maxp = Some n" by blast
  from construir_hijos[OF j] show ?thesis by (auto split: if_splits)
qed

text \<open>
  C8. For every constructed octree, \<open>recopilar_estadisticas\<close> returns
  \<open>total_nodos = hojas + internos\<close> and \<open>hojas_ocupadas + hojas_vacias = hojas\<close>; every
  node of the tree has either no children or exactly eight, \<open>total_nodos\<close> counts all
  nodes, \<open>hojas\<close> the nodes without children, \<open>internos\<close> the nodes with eight children
  and \<open>hojas_ocupadas\<close> the leaves that hold a point; \<open>promedio_puntos\<close> is the sum of the
  point counts of the occupied leaves divided by their number, and \<open>0\<close> when there is
  no occupied leaf.
\<close>

theorem estadisticas_octree:
  assumes "construir k pts lims tmin maxp = Some t"
  shows "total_nodos (recopilar_estadisticas t) =
           o_hojas (recopilar_estadisticas t) + o_internos (recopilar_estadisticas t) \<and>
         o_hojas_ocupadas (recopilar_estadisticas t) + o_hojas_vacias (recopilar_estadisticas t) =
           o_hojas (recopilar_estadisticas t) \<and>
         (\<forall>n \<in> set (todos_nodos t). hijos n = [] \<or> length (hijos n) = 8) \<and>
         total_nodos (recopilar_estadisticas t) = int (length (todos_nodos t)) \<and>
         o_hojas (recopilar_estadisticas t) =
           int (length (filter (\<lambda>n. hijos n = []) (todos_nodos t))) \<and>
         o_internos (recopilar_estadisticas t) =
           int (length (filter (\<lambda>n. length (hijos n) = 8) (todos_nodos t))) \<and>
         o_hojas_ocupadas (recopilar_estadisticas t) = int (length (hojas_ocupadas_de t)) \<and>
         promedio_puntos (recopilar_estadisticas t) =
           (if hojas_ocupadas_de t \<noteq> []
            then real (sum_list (map (\<lambda>h. length (puntos h)) (hojas_ocupadas_de t))) /
                 real (length (hojas_ocupadas_de t))
            else 0)"
proof -
  have a: "total_nodos (recopilar_estadisticas t) =
           o_hojas (recopilar_estadisticas t) + o_internos (recopilar_estadisticas t)"
    using recursivo_balance[of t] by (simp add: recopilar_estadisticas_def Let_def)
  have b: "o_hojas_ocupadas (recopilar_estadisticas t) + o_hojas_vacias (recopilar_estadisticas t) =
           o_hojas (recopilar_estadisticas t)"
    using recursivo_balance[of t] by (simp add: recopilar_estadisticas_def Let_def)
  have c: "\<forall>n \<in> set (todos_nodos t). hijos n = [] \<or> length (hijos n) = 8"
    using hojas_u_ocho[OF assms] by blast
  have d: "total_nodos (recopilar_estadisticas t) = int (length (todos_nodos t))"
    by (simp add: recopilar_estadisticas_def Let_def recursivo_nodos)
  have e: "o_hojas (recopilar_estadisticas t) =
           int (length (filter (\<lambda>n. hijos n = []) (todos_nodos t)))"
    by (simp add: recopilar_estadisticas_def Let_def recursivo_hojas hojas_sin_hijos)
  have "filter (\<lambda>n. hijos n \<noteq> []) (todos_nodos t) =
        filter (\<lambda>n. length (hijos n) = 8) (todos_nodos t)"
    by (rule filter_cong) (use c in auto)
  then have f: "o_internos (recopilar_estadisticas t) =
           int (length (filter (\<lambda>n. length (hijos n) = 8) (todos_nodos t)))"
    by (simp add: recopilar_estadisticas_def Let_def recursivo_internos)
  have g: "o_hojas_ocupadas (recopilar_estadisticas t) = int (length (hojas_ocupadas_de t))"
    by (simp add: recopilar_estadisticas_def Let_def recursivo_hojas_ocupadas)
  have h: "promedio_puntos (recopilar_estadisticas t) =
           (if hojas_ocupadas_de t \<noteq> []
            then real (sum_list (map (\<lambda>h. length (puntos h)) (hojas_ocupadas_de t))) /
                 real (length (hojas_ocupadas_de t))
            else 0)"
    by (simp add: recopilar_estadisticas_def Let_def recursivo_hojas_ocupadas
        recursivo_suma_puntos)
  from a b c d e f g h show ?thesis by blast
qed

theorem estadisticas_octree_witness:
  "construir 2 [(0, 0, 0), (1, 1, 1)] ((0, 0, 0), (1, 1, 1)) (1/2) 1 \<noteq> None \<and>
   recopilar_estadisticas
     (the (construir 2 [(0, 0, 0), (1, 1, 1)] ((0, 0, 0), (1, 1, 1)) (1/2) 1)) =
     \<lparr>total_nodos = 9, o_hojas = 8, o_internos = 1, o_hojas_ocupadas = 1,
      o_hojas_vacias = 7, promedio_puntos = 1\<rparr> \<and>
   int (length (todos_nodos
     (the (construir 2 [(0, 0, 0), (1, 1, 1)] ((0, 0, 0), (1, 1, 1)) (1/2) 1)))) = 9 \<and>
   int (length (hojas_ocupadas_de
     (the (construir 2 [(0, 0, 0), (1, 1, 1)] ((0, 0, 0), (1, 1, 1)) (1/2) 1)))) = 1"
proof -
  let ?P = "[(0, 0, 0), (1, 1, 1)] :: punto list"
  let ?L = "((0, 0, 0), (1, 1, 1)) :: caja"
  obtain t where c: "construir 2 ?P ?L (1/2) 1 = Some t" using construir_ejemplo by blast
  have s: "recopilar_estadisticas t =
     \<lparr>total_nodos = 9, o_hojas = 8, o_internos = 1, o_hojas_ocupadas = 1,
      o_hojas_vacias = 7, promedio_puntos = 1\<rparr>"
    using c construir_ejemplo by (auto simp: recopilar_estadisticas_def acumular_def)
  from estadisticas_octree[OF c] s
  have "int (length (todos_nodos t)) = 9" "int (length (hojas_ocupadas_de t)) = 1"
    by simp_all
  with c s show ?thesis by simp
qed

text \<open>
  C10, as amended. Constructing an octree on an empty point set succeeds for any
  bounds, any \<open>tam_minimo\<close> and any \<open>maximo_puntos \<ge> 0\<close>, and gives a single leaf whose
  statistics are \<open>total_nodos = 1\<close>, \<open>hojas = 1\<close>, \<open>internos = 0\<close>, \<open>hojas_ocupadas = 0\<close>,
  \<open>hojas_vacias = 1\<close>, \<open>promedio_puntos = 0\<close>.
\<close>

theorem octree_vacio:
  assumes "0 \<le> maxp"
  shows "construir (Suc k) [] lims tmin maxp = Some (NodoOctree [] lims tmin maxp []) \<and>
         recopilar_estadisticas (NodoOctree [] lims tmin maxp []) =
           \<lparr>total_nodos = 1, o_hojas = 1, o_internos = 0, o_hojas_ocupadas = 0,
            o_hojas_vacias = 1, promedio_puntos = 0\<rparr>"
  using assms by (simp add: recopilar_estadisticas_def)

theorem octree_vacio_witness:
  "(0::int) \<le> 10 \<and>
   construir (Suc 0) [] ((0, 0, 0), (1, 1, 1)) (1/2) 10 =
     Some (NodoOctree [] ((0, 0, 0), (1, 1, 1)) (1/2) 10 []) \<and>
   recopilar_estadisticas (NodoOctree [] ((0, 0, 0), (1, 1, 1)) (1/2) 10 []) =
     \<lparr>total_nodos = 1, o_hojas = 1, o_internos = 0, o_hojas_ocupadas = 0,
      o_hojas_vacias = 1, promedio_puntos = 0\<rparr>"
  using octree_vacio[of 10 0 "((0, 0, 0), (1, 1, 1))" "1/2"] by simp

text \<open>
  With a negative \<open>maximo_puntos\<close> the test \<open>len(puntos) > maximo_puntos\<close> holds for the
  empty point set: on the unit cube with \<open>tam_minimo = 1/2\<close> and \<open>maximo_puntos = -1\<close> the
  root subdivides, and the tree has nine nodes.
\<close>

theorem octree_vacio_contraejemplo:
  "map_option (\<lambda>t. (length (hijos t), total_nodos (recopilar_estadisticas t),
                    o_hojas (recopilar_estadisticas t), o_internos (recopilar_estadisticas t)))
     (construir 2 [] ((0, 0, 0), (1, 1, 1)) (1/2) (- 1)) = Some (8, 9, 8, 1)"
  by (simp add: construir_2 sub_limites_lista tam_maximo_def recopilar_estadisticas_def
      acumular_def)

section \<open>Termination of the construction\<close>





lemma construir_hoja:
  assumes "tam_maximo lims \<le> tmin"
  shows "construir (Suc j) pts lims tmin maxp = Some (NodoOctree pts lims tmin maxp [])"
  using assms by simp





section \<open>Selection of leaves\<close>








text \<open>
  C7, as amended. When the cap \<open>max_hojas\<close> is \<open>0\<close> the guard \<open>max_hojas > 0\<close> fails and
  the selection is the whole list of occupied leaves, unchanged.
\<close>

theorem seleccionadas_cero: "seleccionadas xs 0 = Some xs"
  by (simp add: seleccionadas_def)

theorem seleccionadas_cero_witness:
  "seleccionadas [10, 11, 12 :: nat] 0 = Some [10, 11, 12]"
  using seleccionadas_cero[of "[10, 11, 12 :: nat]"] .

text \<open>
  With the cap \<open>0\<close> and three occupied leaves the selection holds the three leaves; it
  is not empty.
\<close>

theorem seleccionadas_cero_contraejemplo:
  "seleccionadas [10, 11, 12 :: nat] 0 = Some [10, 11, 12] \<and>
   seleccionadas [10, 11, 12 :: nat] 0 \<noteq> Some []"
  by (simp add: seleccionadas_def)

section \<open>The occupancy grid\<close>
















section \<open>Validation of the parameters\<close>





end
